theory Spec2Isabelle
  imports Main "HOL-Library.Word"
begin

section \<open>Errors and results\<close>

text \<open>
  The error kinds of the metadata package. The messages are dropped, the kinds are kept.
  \<open>ErrDownloadHTTP\<close> carries its status code; \<open>ErrOther\<close> stands for every error that is
  not one of the package's kinds (\<open>fmt.Errorf\<close>, errors of the operating system or of a
  library).
\<close>

datatype error =
    ErrRepository
  | ErrUnsignedMetadata
  | ErrBadVersionNumber
  | ErrEqualVersionNumber
  | ErrExpiredMetadata
  | ErrLengthOrHashMismatch
  | ErrType
  | ErrValue
  | ErrRuntime
  | ErrDownloadHTTP int
  | ErrDownloadLengthMismatch
  | ErrOther string

text \<open>
  A Go function that returns only \<open>error\<close> is modelled with result \<open>error option\<close>
  (\<open>None\<close> is \<open>nil\<close>); one that returns a value and an error with \<open>error + 'a\<close>.
  A function that can dereference a nil pointer has a result of type \<open>exec\<close>: it either
  returns or panics.
\<close>

datatype 'a exec = Returns 'a | Panics

type_synonym bytes = "8 word list"

type_synonym Time = int

section \<open>The metadata model\<close>

definition ROOT :: string where "ROOT = ''root''"
definition SNAPSHOT :: string where "SNAPSHOT = ''snapshot''"
definition TARGETS :: string where "TARGETS = ''targets''"
definition TIMESTAMP :: string where "TIMESTAMP = ''timestamp''"
definition SPECIFICATION_VERSION :: string where "SPECIFICATION_VERSION = ''1.0.31''"
definition KeyTypeEd25519 :: string where "KeyTypeEd25519 = ''ed25519''"

text \<open>
  The struct declarations. A Go map that the code only indexes is a HOL map; a Go map that
  the code iterates (\<open>Hashes\<close>) is an association list with distinct keys. A pointer field
  that may be nil (\<open>Delegations\<close>) is an option; an entry of a map of pointers is taken to
  be non-nil when present, so indexing a missing key gives the nil pointer \<open>None\<close>.
\<close>

record Signature =
  KeyID :: string
  Signature :: bytes

record Key =
  Type :: string
  Scheme :: string
  Public :: string

record Role =
  KeyIDs :: "string list"
  Threshold :: int

type_synonym Hashes = "(string \<times> bytes) list"

record MetaFiles =
  Length :: int
  Hashes :: Hashes
  Version :: int

record TargetFiles =
  Length :: int
  Hashes :: Hashes
  Path :: string

record DelegatedRole =
  Name :: string
  KeyIDs :: "string list"
  Threshold :: int
  Terminating :: bool
  Paths :: "string list"
  PathHashPrefixes :: "string list"

record Delegations =
  Keys :: "string \<rightharpoonup> Key"
  Roles :: "DelegatedRole list"

record SignedCommon =
  Type :: string
  SpecVersion :: string
  Version :: int
  Expires :: Time

record RootType = SignedCommon +
  Keys :: "string \<rightharpoonup> Key"
  Roles :: "string \<rightharpoonup> Role"
  ConsistentSnapshot :: bool

record SnapshotType = SignedCommon +
  Meta :: "string \<rightharpoonup> MetaFiles"

record TimestampType = SignedCommon +
  Meta :: "string \<rightharpoonup> MetaFiles"

record TargetsType = SignedCommon +
  Targets :: "string \<rightharpoonup> TargetFiles"
  Delegations :: "Delegations option"

record 'a Metadata =
  Signed :: 'a
  Signatures :: "Signature list"

text \<open>
  \<open>VerifyDelegate\<close> takes its receiver through \<open>any(meta)\<close> and its argument as \<open>any\<close>, and
  switches on the dynamic type: the values of \<open>any\<close> that the switches tell apart.
\<close>

datatype AnyMetadata =
    MRoot "RootType Metadata"
  | MSnapshot "SnapshotType Metadata"
  | MTimestamp "TimestampType Metadata"
  | MTargets "TargetsType Metadata"
  | MOther

datatype AnySigned =
    SRoot RootType
  | SSnapshot SnapshotType
  | STimestamp TimestampType
  | STargets TargetsType

text \<open>
  The trusted metadata set and the configuration of the updater (their declarations are
  in packages outside the sources at hand; the fields are those the updater reads).
\<close>

record TrustedMetadata =
  Root :: "RootType Metadata"
  Timestamp :: "TimestampType Metadata option"
  Snapshot :: "SnapshotType Metadata option"
  Targets :: "string \<rightharpoonup> TargetsType Metadata"

record UpdaterConfig =
  MaxRootRotations :: int
  MaxDelegations :: int
  RootMaxLength :: int
  TimestampMaxLength :: int
  SnapshotMaxLength :: int
  TargetsMaxLength :: int
  PrefixTargetsWithHash :: bool

subsection \<open>Constructors\<close>

text \<open>
  The variadic \<open>expires\<close> is a list; \<open>now\<close> is the reading of \<open>time.Now().UTC()\<close>.
\<close>

definition expiresOrNow :: "Time \<Rightarrow> Time list \<Rightarrow> Time" where
  "expiresOrNow now expires = (case expires of [] \<Rightarrow> now | e # _ \<Rightarrow> e)"

definition Root :: "Time \<Rightarrow> Time list \<Rightarrow> RootType Metadata" where
  "Root now expires =
     (let r = \<lparr>Role.KeyIDs = [], Role.Threshold = 1\<rparr>;
          roles = [ROOT \<mapsto> r, SNAPSHOT \<mapsto> r, TARGETS \<mapsto> r, TIMESTAMP \<mapsto> r]
      in \<lparr>Signed = \<lparr>Type = ROOT, SpecVersion = SPECIFICATION_VERSION, Version = 1,
                     Expires = expiresOrNow now expires,
                     RootType.Keys = Map.empty, RootType.Roles = roles, ConsistentSnapshot = True\<rparr>,
          Signatures = []\<rparr>)"

definition Snapshot :: "Time \<Rightarrow> Time list \<Rightarrow> SnapshotType Metadata" where
  "Snapshot now expires =
     \<lparr>Signed = \<lparr>Type = SNAPSHOT, SpecVersion = SPECIFICATION_VERSION, Version = 1,
                 Expires = expiresOrNow now expires,
                 SnapshotType.Meta =
                   [''targets.json'' \<mapsto> \<lparr>MetaFiles.Length = 0, MetaFiles.Hashes = [], Version = 1\<rparr>]\<rparr>,
      Signatures = []\<rparr>"

definition Timestamp :: "Time \<Rightarrow> Time list \<Rightarrow> TimestampType Metadata" where
  "Timestamp now expires =
     \<lparr>Signed = \<lparr>Type = TIMESTAMP, SpecVersion = SPECIFICATION_VERSION, Version = 1,
                 Expires = expiresOrNow now expires,
                 TimestampType.Meta =
                   [''snapshot.json'' \<mapsto> \<lparr>MetaFiles.Length = 0, MetaFiles.Hashes = [], Version = 1\<rparr>]\<rparr>,
      Signatures = []\<rparr>"

definition Targets :: "Time \<Rightarrow> Time list \<Rightarrow> TargetsType Metadata" where
  "Targets now expires =
     \<lparr>Signed = \<lparr>Type = TARGETS, SpecVersion = SPECIFICATION_VERSION, Version = 1,
                 Expires = expiresOrNow now expires,
                 TargetsType.Targets = Map.empty, Delegations = None\<rparr>,
      Signatures = []\<rparr>"

section \<open>Integrity checks\<close>

text \<open>
  \<open>verifyLength\<close> of the metadata package. \<open>io.Copy\<close> from a byte reader into
  \<open>io.Discard\<close> returns the number of bytes of \<open>data\<close> and no error. A Go slice has
  fewer than \<open>2^63\<close> elements, so the \<open>int64\<close> values are read as integers.
\<close>

definition verifyLength :: "bytes \<Rightarrow> int \<Rightarrow> error option" where
  "verifyLength data length' =
     (let len = int (length data)
      in if length' \<noteq> len then Some ErrLengthOrHashMismatch else None)"

text \<open>The function of the same name in \<open>helpers.go\<close>: its body is a TODO that returns nil.\<close>

definition verifyLength_helpers :: "bytes \<Rightarrow> int \<Rightarrow> error option" where
  "verifyLength_helpers data length' = None"

definition verifyHashes_helpers :: "bytes \<Rightarrow> Hashes \<Rightarrow> error option" where
  "verifyHashes_helpers data hashes = None"

text \<open>\<open>hex.EncodeToString\<close>: two lower-case hexadecimal digits for each byte.\<close>

definition hexdigit :: "nat \<Rightarrow> char" where
  "hexdigit n = ''0123456789abcdef'' ! (n mod 16)"

definition EncodeToString :: "bytes \<Rightarrow> string" where
  "EncodeToString bs = concat (map (\<lambda>b. [hexdigit (unat b div 16), hexdigit (unat b mod 16)]) bs)"

text \<open>
  The digest functions \<open>sha256\<close> and \<open>sha512\<close> of the Go library are parameters.
  \<open>verifyHashes\<close> ranges over the map; every failure has the same error kind, so the
  result does not depend on the order of the iteration.
\<close>

record Hashers =
  sha256 :: "bytes \<Rightarrow> bytes"
  sha512 :: "bytes \<Rightarrow> bytes"

fun verifyHashes :: "Hashers \<Rightarrow> bytes \<Rightarrow> Hashes \<Rightarrow> error option" where
  "verifyHashes H data [] = None"
| "verifyHashes H data ((k, v) # hashes) =
     (case (if k = ''sha256'' then Some (sha256 H)
            else if k = ''sha512'' then Some (sha512 H)
            else None) of
        None \<Rightarrow> Some ErrLengthOrHashMismatch
      | Some hasher \<Rightarrow>
          if EncodeToString v \<noteq> EncodeToString (hasher data)
          then Some ErrLengthOrHashMismatch
          else verifyHashes H data hashes)"

definition MetaFiles_VerifyLengthHashes :: "Hashers \<Rightarrow> MetaFiles \<Rightarrow> bytes \<Rightarrow> error option" where
  "MetaFiles_VerifyLengthHashes H f data =
     (case (if length (MetaFiles.Hashes f) > 0 then verifyHashes H data (MetaFiles.Hashes f)
            else None) of
        Some err \<Rightarrow> Some err
      | None \<Rightarrow>
          (if MetaFiles.Length f \<noteq> 0 then verifyLength data (MetaFiles.Length f) else None))"

definition TargetFiles_VerifyLengthHashes :: "Hashers \<Rightarrow> TargetFiles \<Rightarrow> bytes \<Rightarrow> error option" where
  "TargetFiles_VerifyLengthHashes H f data =
     (case verifyHashes H data (TargetFiles.Hashes f) of
        Some err \<Rightarrow> Some err
      | None \<Rightarrow> verifyLength data (TargetFiles.Length f))"

definition TargetFile :: TargetFiles where
  "TargetFile = \<lparr>TargetFiles.Length = 0, TargetFiles.Hashes = [], Path = []\<rparr>"

section \<open>Delegated paths\<close>

text \<open>
  \<open>filepath.Match(pattern, name)\<close> of the Go library is a parameter: its first argument is
  the pattern, its second the name, and it returns whether the name matches and an error
  for a malformed pattern.
\<close>

type_synonym Matcher = "string \<Rightarrow> string \<Rightarrow> bool \<times> error option"

text \<open>
  The matcher used for concrete inputs: \<open>filepath.Match\<close> on patterns without character
  classes and escapes, where \<open>*\<close> matches any sequence of non-separator characters,
  \<open>?\<close> one non-separator character, and every other character itself.
\<close>

fun globMatch :: "string \<Rightarrow> string \<Rightarrow> bool" where
  "globMatch [] [] = True"
| "globMatch [] (c # cs) = False"
| "globMatch (p # ps) [] = (p = CHR ''*'' \<and> globMatch ps [])"
| "globMatch (p # ps) (c # cs) =
     (if p = CHR ''*'' then globMatch ps (c # cs) \<or> (c \<noteq> CHR ''/'' \<and> globMatch (p # ps) cs)
      else if p = CHR ''?'' then c \<noteq> CHR ''/'' \<and> globMatch ps cs
      else p = c \<and> globMatch ps cs)"

definition filepath_Match :: Matcher where
  "filepath_Match pattern name = (globMatch pattern name, None)"

text \<open>
  \<open>IsDelegatedPath\<close>: the body of the loop over \<open>role.Paths\<close> is a \<open>return\<close>, so only the
  first element is looked at; the call passes the target path in the place of the pattern
  and the pattern in the place of the name.
\<close>

definition IsDelegatedPath :: "Matcher \<Rightarrow> DelegatedRole \<Rightarrow> string \<Rightarrow> bool \<times> error option" where
  "IsDelegatedPath Match role targetFilepath =
     (if length (PathHashPrefixes role) > 0 then (False, None)
      else if length (Paths role) > 0 then
        (case Paths role of
           pathPattern # _ \<Rightarrow> Match targetFilepath pathPattern
         | [] \<Rightarrow> (False, None))
      else (False, None))"

text \<open>
  A Go \<open>map[string]bool\<close> kept as an association list with distinct keys:
  \<open>res[k] = v\<close> replaces the entry of an existing key and adds a new one otherwise.
\<close>

fun map_assign :: "'k \<Rightarrow> 'v \<Rightarrow> ('k \<times> 'v) list \<Rightarrow> ('k \<times> 'v) list" where
  "map_assign k v [] = [(k, v)]"
| "map_assign k v ((k', v') # m) =
     (if k' = k then (k, v) # m else (k', v') # map_assign k v m)"

definition GetRolesForTarget :: "Matcher \<Rightarrow> Delegations \<Rightarrow> string \<Rightarrow> (string \<times> bool) list" where
  "GetRolesForTarget Match role targetFilepath =
     foldl (\<lambda>res r.
              case IsDelegatedPath Match r targetFilepath of
                (ok, err) \<Rightarrow>
                  if err = None \<and> ok then map_assign (Name r) (Terminating r) res else res)
           [] (Delegations.Roles role)"

section \<open>Threshold verification\<close>

text \<open>
  The signature primitives are parameters: \<open>ToPublicKey\<close> of a key, \<open>LoadVerifier\<close> of the
  signature library, the verifier's \<open>VerifySignature\<close> (true when it returns no error) and
  the canonical JSON encoder. \<open>ToPublicKey\<close> reads the fields of its receiver, so it
  is given the key itself; on the nil pointer the call panics.
\<close>

datatype Hash = Hash0 | SHA256

record ('pk, 'vf) Crypto =
  ToPublicKey :: "Key \<Rightarrow> error + 'pk"
  LoadVerifier :: "'pk \<Rightarrow> Hash \<Rightarrow> error + 'vf"
  VerifySignature :: "'vf \<Rightarrow> bytes \<Rightarrow> bytes \<Rightarrow> bool"
  EncodeCanonical :: "AnySigned \<Rightarrow> error + bytes"

text \<open>The inner loop \<open>for _, s := range d.Signatures\<close>: the last signature of the key id wins.\<close>

definition findSignature :: "Signature list \<Rightarrow> string \<Rightarrow> Signature" where
  "findSignature sigs v =
     foldl (\<lambda>sign s. if KeyID s = v then s else sign) \<lparr>KeyID = [], Signature = []\<rparr> sigs"

text \<open>The switch on the type of \<open>delegated_metadata\<close>: the signature and the payload.\<close>

fun signAndPayload ::
  "('pk, 'vf) Crypto \<Rightarrow> AnyMetadata \<Rightarrow> string \<Rightarrow> error + (Signature \<times> bytes)" where
  "signAndPayload C (MRoot d) v =
     (case EncodeCanonical C (SRoot (Signed d)) of
        Inl err \<Rightarrow> Inl err | Inr payload \<Rightarrow> Inr (findSignature (Signatures d) v, payload))"
| "signAndPayload C (MSnapshot d) v =
     (case EncodeCanonical C (SSnapshot (Signed d)) of
        Inl err \<Rightarrow> Inl err | Inr payload \<Rightarrow> Inr (findSignature (Signatures d) v, payload))"
| "signAndPayload C (MTimestamp d) v =
     (case EncodeCanonical C (STimestamp (Signed d)) of
        Inl err \<Rightarrow> Inl err | Inr payload \<Rightarrow> Inr (findSignature (Signatures d) v, payload))"
| "signAndPayload C (MTargets d) v =
     (case EncodeCanonical C (STargets (Signed d)) of
        Inl err \<Rightarrow> Inl err | Inr payload \<Rightarrow> Inr (findSignature (Signatures d) v, payload))"
| "signAndPayload C MOther v = Inl ErrType"

text \<open>
  The loop over \<open>roleKeyIDs\<close>. \<open>signing_keys\<close> is a \<open>map[string]bool\<close> used as a set: a
  list without duplicates, whose length is \<open>len(signing_keys)\<close>.
\<close>

fun verifyKeyIDs ::
  "('pk, 'vf) Crypto \<Rightarrow> (string \<rightharpoonup> Key) \<Rightarrow> AnyMetadata \<Rightarrow> string list \<Rightarrow> string list
     \<Rightarrow> (error + string list) exec" where
  "verifyKeyIDs C keys d [] signing_keys = Returns (Inr signing_keys)"
| "verifyKeyIDs C keys d (v # vs) signing_keys =
     (case keys v of
        None \<Rightarrow> Panics
      | Some k \<Rightarrow>
          (case ToPublicKey C k of
             Inl err \<Rightarrow> Returns (Inl err)
           | Inr key \<Rightarrow>
               (let hash = (if Key.Type k \<noteq> KeyTypeEd25519 then SHA256 else Hash0)
                in case LoadVerifier C key hash of
                     Inl err \<Rightarrow> Returns (Inl err)
                   | Inr verifier \<Rightarrow>
                       (case signAndPayload C d v of
                          Inl err \<Rightarrow> Returns (Inl err)
                        | Inr (sign, payload) \<Rightarrow>
                            verifyKeyIDs C keys d vs
                              (if VerifySignature C verifier (Signature sign) payload
                               then List.insert v signing_keys
                               else signing_keys)))))"

text \<open>
  The first switch: keys, key ids and threshold of the role. For a targets delegator the
  first delegated role of that name is taken, and \<open>roleKeyIDs\<close> stays nil when there is
  none; \<open>i.Signed.Delegations.Keys\<close> dereferences the \<open>Delegations\<close> pointer.
\<close>

fun findDelegatedRole :: "DelegatedRole list \<Rightarrow> string \<Rightarrow> string list \<times> int" where
  "findDelegatedRole [] delegated_role = ([], 0)"
| "findDelegatedRole (v # vs) delegated_role =
     (if Name v = delegated_role then (DelegatedRole.KeyIDs v, DelegatedRole.Threshold v)
      else findDelegatedRole vs delegated_role)"

fun roleOfDelegator ::
  "AnyMetadata \<Rightarrow> string \<Rightarrow> (error + (string \<rightharpoonup> Key) \<times> string list \<times> int) exec" where
  "roleOfDelegator (MRoot i) delegated_role =
     (case RootType.Roles (Signed i) delegated_role of
        Some role \<Rightarrow> Returns (Inr (RootType.Keys (Signed i), Role.KeyIDs role, Role.Threshold role))
      | None \<Rightarrow> Returns (Inl ErrValue))"
| "roleOfDelegator (MTargets i) delegated_role =
     (case Delegations (Signed i) of
        None \<Rightarrow> Panics
      | Some ds \<Rightarrow>
          (case findDelegatedRole (Delegations.Roles ds) delegated_role of
             (roleKeyIDs, roleThreshold) \<Rightarrow>
               Returns (Inr (Delegations.Keys ds, roleKeyIDs, roleThreshold))))"
| "roleOfDelegator _ delegated_role = Returns (Inl ErrType)"

definition VerifyDelegate ::
  "('pk, 'vf) Crypto \<Rightarrow> AnyMetadata \<Rightarrow> string \<Rightarrow> AnyMetadata \<Rightarrow> error option exec" where
  "VerifyDelegate C meta delegated_role delegated_metadata =
     (case roleOfDelegator meta delegated_role of
        Panics \<Rightarrow> Panics
      | Returns (Inl err) \<Rightarrow> Returns (Some err)
      | Returns (Inr (keys, roleKeyIDs, roleThreshold)) \<Rightarrow>
          if length roleKeyIDs = 0 then Returns (Some ErrValue)
          else
            (case verifyKeyIDs C keys delegated_metadata roleKeyIDs [] of
               Panics \<Rightarrow> Panics
             | Returns (Inl err) \<Rightarrow> Returns (Some err)
             | Returns (Inr signing_keys) \<Rightarrow>
                 if int (length signing_keys) < roleThreshold
                 then Returns (Some ErrUnsignedMetadata)
                 else Returns None))"

section \<open>The updater\<close>

text \<open>
  Modelled from the spec: \<open>errors.Is(err, metadata.ErrRepository{})\<close>, whose \<open>Is\<close> methods
  are declared with the error types, outside the sources at hand. The spec's taxonomy
  makes \<open>ErrRepository\<close> the parent of the kinds from \<open>ErrUnsignedMetadata\<close> to
  \<open>ErrValue\<close>.
\<close>

fun isErrRepository :: "error \<Rightarrow> bool" where
  "isErrRepository ErrRepository = True"
| "isErrRepository ErrUnsignedMetadata = True"
| "isErrRepository ErrBadVersionNumber = True"
| "isErrRepository ErrEqualVersionNumber = True"
| "isErrRepository ErrExpiredMetadata = True"
| "isErrRepository ErrLengthOrHashMismatch = True"
| "isErrRepository ErrType = True"
| "isErrRepository ErrValue = True"
| "isErrRepository _ = False"

text \<open>\<open>strconv.FormatInt(i, 10)\<close>: the decimal digits, with a minus sign below zero.\<close>

fun formatNat :: "nat \<Rightarrow> string" where
  "formatNat n =
     (if n < 10 then [''0123456789'' ! n]
      else formatNat (n div 10) @ [''0123456789'' ! (n mod 10)])"

definition FormatInt :: "int \<Rightarrow> string" where
  "FormatInt i = (if i < 0 then CHR ''-'' # formatNat (nat (- i)) else formatNat (nat i))"

text \<open>
  The state of an updater: its fields and, in \<open>world\<close>, the state of what lies outside
  the program (the local disk and the remote repository). \<open>config\<close> is set once by
  \<open>New\<close> and not written afterwards.
\<close>

record 'w Updater =
  metadataDir :: string
  metadataBaseUrl :: string
  targetDir :: string
  targetBaseUrl :: string
  trusted :: TrustedMetadata
  config :: UpdaterConfig
  world :: 'w

text \<open>
  What the updater calls and the sources at hand do not define:
  \<^item> \<open>readFile\<close>: \<open>os.Open\<close> and \<open>io.ReadAll\<close> of a named file;
  \<^item> \<open>DownloadFile\<close>: the fetcher, given the URL and the maximum length;
  \<^item> \<open>writeFileAtomic\<close>: the calls of \<open>persistMetadata\<close> to the operating system (a
    temporary file is written and renamed to the file name);
  \<^item> \<open>QueryEscape\<close> and \<open>Join\<close>: \<open>url.QueryEscape\<close> and \<open>filepath.Join\<close>;
  \<^item> \<open>UpdateRoot\<close>, \<open>UpdateTimestamp\<close>, \<open>UpdateSnapshot\<close>, \<open>UpdateDelegatedTargets\<close>: the
    methods of the trusted metadata set, which return an error or change the set;
  \<^item> \<open>Match\<close>: \<open>filepath.Match\<close>;
  \<^item> \<open>rangeRoles\<close>: the order in which \<open>range\<close> yields the entries of a
    \<open>map[string]bool\<close>, which Go leaves unspecified.
\<close>

record 'w Env =
  readFile :: "'w \<Rightarrow> string \<Rightarrow> error + bytes"
  DownloadFile :: "'w \<Rightarrow> string \<Rightarrow> int \<Rightarrow> (error + bytes) \<times> 'w"
  writeFileAtomic :: "'w \<Rightarrow> string \<Rightarrow> bytes \<Rightarrow> error option \<times> 'w"
  QueryEscape :: "string \<Rightarrow> string"
  Join :: "string \<Rightarrow> string \<Rightarrow> string"
  UpdateRoot :: "TrustedMetadata \<Rightarrow> bytes \<Rightarrow> error option \<times> TrustedMetadata"
  UpdateTimestamp :: "TrustedMetadata \<Rightarrow> bytes \<Rightarrow> error option \<times> TrustedMetadata"
  UpdateSnapshot :: "TrustedMetadata \<Rightarrow> bytes \<Rightarrow> bool \<Rightarrow> error option \<times> TrustedMetadata"
  UpdateDelegatedTargets ::
    "TrustedMetadata \<Rightarrow> bytes \<Rightarrow> string \<Rightarrow> string
       \<Rightarrow> (error + TargetsType Metadata) \<times> TrustedMetadata"
  Match :: Matcher
  rangeRoles :: "(string \<times> bool) list \<Rightarrow> (string \<times> bool) list"

definition loadLocalMetadata :: "'w Env \<Rightarrow> 'w Updater \<Rightarrow> string \<Rightarrow> error + bytes" where
  "loadLocalMetadata E update roleName =
     readFile E (world update) (QueryEscape E roleName @ ''.json'')"

definition downloadMetadata ::
  "'w Env \<Rightarrow> 'w Updater \<Rightarrow> string \<Rightarrow> int \<Rightarrow> string \<Rightarrow> (error + bytes) \<times> 'w Updater" where
  "downloadMetadata E update roleName length' version =
     (let urlPath =
            (if version = [] then metadataBaseUrl update @ QueryEscape E roleName @ ''.json''
             else metadataBaseUrl update @ version @ ''.'' @ QueryEscape E roleName @ ''.json'')
      in case DownloadFile E (world update) urlPath length' of
           (res, w) \<Rightarrow> (res, update\<lparr>world := w\<rparr>))"

definition persistMetadata ::
  "'w Env \<Rightarrow> 'w Updater \<Rightarrow> string \<Rightarrow> bytes \<Rightarrow> error option \<times> 'w Updater" where
  "persistMetadata E update roleName data =
     (let fileName = Join E (metadataDir update) (QueryEscape E roleName @ ''.json'')
      in case writeFileAtomic E (world update) fileName data of
           (err, w) \<Rightarrow> (err, update\<lparr>world := w\<rparr>))"

subsection \<open>loadRoot\<close>

text \<open>
  The loop of \<open>loadRoot\<close>, from \<open>nextVersion\<close> while \<open>nextVersion <= upperBound\<close>. The
  versions are \<open>int64\<close> in the code and integers here: the model is the code as long as
  \<open>upperBound\<close> stays below \<open>2^63 - 1\<close>.
\<close>

function loadRoot_loop ::
  "'w Env \<Rightarrow> 'w Updater \<Rightarrow> int \<Rightarrow> int \<Rightarrow> error option \<times> 'w Updater" where
  "loadRoot_loop E update nextVersion upperBound =
     (if nextVersion \<le> upperBound then
        (case downloadMetadata E update ROOT (RootMaxLength (config update)) (FormatInt nextVersion) of
           (Inl err, u1) \<Rightarrow>
             (case err of
                ErrDownloadHTTP StatusCode \<Rightarrow>
                  if StatusCode \<noteq> 404 \<and> StatusCode \<noteq> 403 then (Some err, u1)
                  else (None, u1)
              | _ \<Rightarrow> (Some err, u1))
         | (Inr data, u1) \<Rightarrow>
             (case UpdateRoot E (trusted u1) data of
                (Some err, t) \<Rightarrow> (Some err, u1\<lparr>trusted := t\<rparr>)
              | (None, t) \<Rightarrow>
                  (case persistMetadata E (u1\<lparr>trusted := t\<rparr>) ROOT data of
                     (Some err, u2) \<Rightarrow> (Some err, u2)
                   | (None, u2) \<Rightarrow> loadRoot_loop E u2 (nextVersion + 1) upperBound)))
      else (None, update))"
  by pat_completeness auto
termination
  by (relation "measure (\<lambda>(E, update, nextVersion, upperBound). nat (upperBound + 1 - nextVersion))")
     auto

declare loadRoot_loop.simps [simp del]

definition loadRoot :: "'w Env \<Rightarrow> 'w Updater \<Rightarrow> error option \<times> 'w Updater" where
  "loadRoot E update =
     (let lowerBound = Version (Signed (TrustedMetadata.Root (trusted update))) + 1;
          upperBound = lowerBound + MaxRootRotations (config update)
      in loadRoot_loop E update lowerBound upperBound)"

subsection \<open>loadTimestamp, loadSnapshot, loadTargets\<close>

definition loadTimestamp :: "'w Env \<Rightarrow> 'w Updater \<Rightarrow> error option \<times> 'w Updater" where
  "loadTimestamp E update =
     (case (case loadLocalMetadata E update TIMESTAMP of
              Inl err \<Rightarrow> (None, update)
            | Inr data \<Rightarrow>
                (case UpdateTimestamp E (trusted update) data of
                   (Some err, t) \<Rightarrow>
                     if isErrRepository err then (None, update\<lparr>trusted := t\<rparr>)
                     else (Some err, update\<lparr>trusted := t\<rparr>)
                 | (None, t) \<Rightarrow> (None, update\<lparr>trusted := t\<rparr>))) of
        (Some err, u1) \<Rightarrow> (Some err, u1)
      | (None, u1) \<Rightarrow>
          (case downloadMetadata E u1 TIMESTAMP (TimestampMaxLength (config u1)) [] of
             (Inl err, u2) \<Rightarrow> (Some err, u2)
           | (Inr data, u2) \<Rightarrow>
               (case UpdateTimestamp E (trusted u2) data of
                  (Some err, t) \<Rightarrow>
                    if err = ErrEqualVersionNumber then (None, u2\<lparr>trusted := t\<rparr>)
                    else (Some err, u2\<lparr>trusted := t\<rparr>)
                | (None, t) \<Rightarrow> persistMetadata E (u2\<lparr>trusted := t\<rparr>) TIMESTAMP data)))"

text \<open>Indexing a Go map of \<open>MetaFiles\<close> at a missing key gives the zero value.\<close>

definition metaAt :: "(string \<rightharpoonup> MetaFiles) \<Rightarrow> string \<Rightarrow> MetaFiles" where
  "metaAt m k =
     (case m k of
        Some f \<Rightarrow> f
      | None \<Rightarrow> \<lparr>MetaFiles.Length = 0, MetaFiles.Hashes = [], Version = 0\<rparr>)"

text \<open>
  The first half of \<open>loadSnapshot\<close> and of \<open>loadTargets\<close> tries the local file: it
  returns (\<open>Some\<close>) or goes on to the remote repository (\<open>None\<close>).
\<close>

definition loadSnapshot :: "'w Env \<Rightarrow> 'w Updater \<Rightarrow> error option \<times> 'w Updater" where
  "loadSnapshot E update =
     (case (case loadLocalMetadata E update SNAPSHOT of
              Inl err \<Rightarrow> (None, update)
            | Inr data \<Rightarrow>
                (case UpdateSnapshot E (trusted update) data True of
                   (Some err, t) \<Rightarrow>
                     if isErrRepository err then (None, update\<lparr>trusted := t\<rparr>)
                     else (Some (Some err), update\<lparr>trusted := t\<rparr>)
                 | (None, t) \<Rightarrow> (Some None, update\<lparr>trusted := t\<rparr>))) of
        (Some res, u1) \<Rightarrow> (res, u1)
      | (None, u1) \<Rightarrow>
          (case TrustedMetadata.Timestamp (trusted u1) of
             None \<Rightarrow> (Some (ErrOther ''trusted timestamp not set''), u1)
           | Some ts \<Rightarrow>
               (let snapshotMeta = metaAt (TimestampType.Meta (Signed ts)) (SNAPSHOT @ ''.json'');
                    length0 = MetaFiles.Length snapshotMeta;
                    length1 = (if length0 = 0 then SnapshotMaxLength (config u1) else length0);
                    version =
                      (if ConsistentSnapshot (Signed (TrustedMetadata.Root (trusted u1)))
                       then FormatInt (MetaFiles.Version snapshotMeta) else [])
                in case downloadMetadata E u1 SNAPSHOT length1 version of
                     (Inl err, u2) \<Rightarrow> (Some err, u2)
                   | (Inr data, u2) \<Rightarrow>
                       (case UpdateSnapshot E (trusted u2) data False of
                          (Some err, t) \<Rightarrow> (Some err, u2\<lparr>trusted := t\<rparr>)
                        | (None, t) \<Rightarrow> persistMetadata E (u2\<lparr>trusted := t\<rparr>) SNAPSHOT data))))"

definition loadTargets ::
  "'w Env \<Rightarrow> 'w Updater \<Rightarrow> string \<Rightarrow> string
     \<Rightarrow> (error + TargetsType Metadata) \<times> 'w Updater" where
  "loadTargets E update roleName parentName =
     (case TrustedMetadata.Targets (trusted update) roleName of
        Some role \<Rightarrow> (Inr role, update)
      | None \<Rightarrow>
          (case (case loadLocalMetadata E update roleName of
                   Inl err \<Rightarrow> (None, update)
                 | Inr data \<Rightarrow>
                     (case UpdateDelegatedTargets E (trusted update) data roleName parentName of
                        (Inl err, t) \<Rightarrow>
                          if isErrRepository err then (None, update\<lparr>trusted := t\<rparr>)
                          else (Some (Inl err), update\<lparr>trusted := t\<rparr>)
                      | (Inr delegatedTargets, t) \<Rightarrow>
                          (Some (Inr delegatedTargets), update\<lparr>trusted := t\<rparr>))) of
             (Some res, u1) \<Rightarrow> (res, u1)
           | (None, u1) \<Rightarrow>
               (case TrustedMetadata.Snapshot (trusted u1) of
                  None \<Rightarrow> (Inl (ErrOther ''trusted snapshot not set''), u1)
                | Some snap \<Rightarrow>
                    (let metaInfo = metaAt (SnapshotType.Meta (Signed snap)) (roleName @ ''.json'');
                         length0 = MetaFiles.Length metaInfo;
                         length1 = (if length0 \<noteq> 0 then TargetsMaxLength (config u1) else length0);
                         version =
                           (if ConsistentSnapshot (Signed (TrustedMetadata.Root (trusted u1)))
                            then FormatInt (MetaFiles.Version metaInfo) else [])
                     in case downloadMetadata E u1 roleName length1 version of
                          (Inl err, u2) \<Rightarrow> (Inl err, u2)
                        | (Inr data, u2) \<Rightarrow>
                            (case UpdateDelegatedTargets E (trusted u2) data roleName parentName of
                               (Inl err, t) \<Rightarrow> (Inl err, u2\<lparr>trusted := t\<rparr>)
                             | (Inr delegatedTargets, t) \<Rightarrow>
                                 (case persistMetadata E (u2\<lparr>trusted := t\<rparr>) roleName data of
                                    (Some err, u3) \<Rightarrow> (Inl err, u3)
                                  | (None, u3) \<Rightarrow> (Inr delegatedTargets, u3)))))))"

definition Refresh :: "'w Env \<Rightarrow> 'w Updater \<Rightarrow> error option \<times> 'w Updater" where
  "Refresh E update =
     (case loadRoot E update of
        (Some err, u1) \<Rightarrow> (Some err, u1)
      | (None, u1) \<Rightarrow>
          (case loadTimestamp E u1 of
             (Some err, u2) \<Rightarrow> (Some err, u2)
           | (None, u2) \<Rightarrow>
               (case loadSnapshot E u2 of
                  (Some err, u3) \<Rightarrow> (Some err, u3)
                | (None, u3) \<Rightarrow>
                    (case loadTargets E u3 TARGETS ROOT of
                       (Inl err, u4) \<Rightarrow> (Some err, u4)
                     | (Inr _, u4) \<Rightarrow> (None, u4)))))"

subsection \<open>The delegation walk\<close>

record roleParentTuple =
  Role :: string
  Parent :: string

text \<open>
  The block under \<open>if targets.Signed.Delegations != nil\<close>. The body of the loop over
  \<open>roles\<close> ends with \<open>delegationsToVisit = []roleParentTuple{}\<close> and \<open>break\<close> outside the
  \<open>if terminating\<close>, so it runs for the first entry that \<open>range\<close> yields and for no
  other. The result is the new \<open>delegationsToVisit\<close>, whose last element is the top of the
  stack.
\<close>

definition pushChildRoles ::
  "Matcher \<Rightarrow> ((string \<times> bool) list \<Rightarrow> (string \<times> bool) list) \<Rightarrow> TargetsType Metadata \<Rightarrow> string
     \<Rightarrow> string \<Rightarrow> roleParentTuple list \<Rightarrow> roleParentTuple list" where
  "pushChildRoles Match' range' targets role targetFilePath delegationsToVisit =
     (case Delegations (Signed targets) of
        None \<Rightarrow> delegationsToVisit
      | Some ds \<Rightarrow>
          (let roles = GetRolesForTarget Match' ds targetFilePath
           in case (case range' roles of
                      [] \<Rightarrow> ([], delegationsToVisit)
                    | (child, terminating) # _ \<Rightarrow> ([] @ [\<lparr>Role = child, Parent = role\<rparr>], []))
              of (childRolesToVisit, stack) \<Rightarrow> stack @ rev childRolesToVisit))"

text \<open>
  The loop of \<open>preOrderDepthFirstWalk\<close>, with the function that loads a role as a
  parameter, so that the calls can be observed. \<open>visitedRoleNames\<close> is a
  \<open>map[string]bool\<close> used as a set: a list without duplicates.
\<close>

function preOrderDepthFirstWalk_loop ::
  "('s \<Rightarrow> string \<Rightarrow> string \<Rightarrow> (error + TargetsType Metadata) \<times> 's) \<Rightarrow> Matcher
     \<Rightarrow> ((string \<times> bool) list \<Rightarrow> (string \<times> bool) list) \<Rightarrow> int \<Rightarrow> string
     \<Rightarrow> roleParentTuple list \<Rightarrow> string list \<Rightarrow> 's \<Rightarrow> (error + TargetFiles) \<times> 's" where
  "preOrderDepthFirstWalk_loop load Match' range' maxDelegations targetFilePath
       delegationsToVisit visitedRoleNames s =
     (if int (length visitedRoleNames) \<le> maxDelegations \<and> length delegationsToVisit > 0 then
        (if Role (last delegationsToVisit) \<in> set visitedRoleNames then
           preOrderDepthFirstWalk_loop load Match' range' maxDelegations targetFilePath
             (butlast delegationsToVisit) visitedRoleNames s
         else
           (case load s (Role (last delegationsToVisit)) (Parent (last delegationsToVisit)) of
              (Inl err, s1) \<Rightarrow> (Inl err, s1)
            | (Inr targets, s1) \<Rightarrow>
                (case TargetsType.Targets (Signed targets) targetFilePath of
                   Some target \<Rightarrow> (Inr target, s1)
                 | None \<Rightarrow>
                     preOrderDepthFirstWalk_loop load Match' range' maxDelegations targetFilePath
                       (pushChildRoles Match' range' targets (Role (last delegationsToVisit))
                          targetFilePath (butlast delegationsToVisit))
                       (List.insert (Role (last delegationsToVisit)) visitedRoleNames) s1)))
      else (Inl (ErrOther (''target '' @ targetFilePath @ '' not found'')), s))"
  by pat_completeness auto
termination
  by (relation "inv_image (less_than <*lex*> less_than)
        (\<lambda>(load, Match', range', maxDelegations, targetFilePath, delegationsToVisit,
            visitedRoleNames, s).
           (nat (maxDelegations + 1 - int (length visitedRoleNames)), length delegationsToVisit))")
     auto

declare preOrderDepthFirstWalk_loop.simps [simp del]

definition preOrderDepthFirstWalk ::
  "'w Env \<Rightarrow> 'w Updater \<Rightarrow> string \<Rightarrow> (error + TargetFiles) \<times> 'w Updater" where
  "preOrderDepthFirstWalk E update targetFilePath =
     preOrderDepthFirstWalk_loop (loadTargets E) (Match E) (rangeRoles E)
       (MaxDelegations (config update)) targetFilePath
       [\<lparr>Role = TARGETS, Parent = ROOT\<rparr>] [] update"

definition GetTargetInfo ::
  "'w Env \<Rightarrow> 'w Updater \<Rightarrow> string \<Rightarrow> (error + TargetFiles) \<times> 'w Updater" where
  "GetTargetInfo E update targetPath =
     (if TrustedMetadata.Targets (trusted update) TARGETS = None then
        (case Refresh E update of
           (Some err, u1) \<Rightarrow> (Inl err, u1)
         | (None, u1) \<Rightarrow> preOrderDepthFirstWalk E u1 targetPath)
      else preOrderDepthFirstWalk E update targetPath)"

text \<open>A loader that also records the name of every role it is asked for.\<close>

definition logged ::
  "('s \<Rightarrow> string \<Rightarrow> string \<Rightarrow> 'r \<times> 's) \<Rightarrow> 's \<times> string list \<Rightarrow> string \<Rightarrow> string
     \<Rightarrow> 'r \<times> 's \<times> string list" where
  "logged load sl roleName parentName =
     (case load (fst sl) roleName parentName of
        (res, s') \<Rightarrow> (res, (s', snd sl @ [roleName])))"

section \<open>What the claims speak of\<close>

text \<open>
  The count of the spec for \<open>verify_delegate\<close>: a key id of the role counts when its key
  is found, the key and the verifier load, the payload encodes, and the signature
  recorded for that key id verifies.
\<close>

definition hashOfKey :: "Key \<Rightarrow> Hash" where
  "hashOfKey k = (if Key.Type k \<noteq> KeyTypeEd25519 then SHA256 else Hash0)"

definition keyVerifies ::
  "('pk, 'vf) Crypto \<Rightarrow> (string \<rightharpoonup> Key) \<Rightarrow> AnyMetadata \<Rightarrow> string \<Rightarrow> bool" where
  "keyVerifies C keys d v =
     (case keys v of
        None \<Rightarrow> False
      | Some k \<Rightarrow>
          (case ToPublicKey C k of
             Inl _ \<Rightarrow> False
           | Inr key \<Rightarrow>
               (case LoadVerifier C key (hashOfKey k) of
                  Inl _ \<Rightarrow> False
                | Inr verifier \<Rightarrow>
                    (case signAndPayload C d v of
                       Inl _ \<Rightarrow> False
                     | Inr (sign, payload) \<Rightarrow>
                         VerifySignature C verifier (Signature sign) payload))))"

text \<open>
  A key id is usable when nothing but the outcome of the signature check is open: its key
  is in the map, the key and the verifier load, and the payload encodes.
\<close>

definition keyUsable ::
  "('pk, 'vf) Crypto \<Rightarrow> (string \<rightharpoonup> Key) \<Rightarrow> AnyMetadata \<Rightarrow> string \<Rightarrow> bool" where
  "keyUsable C keys d v =
     (case keys v of
        None \<Rightarrow> False
      | Some k \<Rightarrow>
          (case ToPublicKey C k of
             Inl _ \<Rightarrow> False
           | Inr key \<Rightarrow>
               (case LoadVerifier C key (hashOfKey k) of
                  Inl _ \<Rightarrow> False
                | Inr verifier \<Rightarrow>
                    (case signAndPayload C d v of Inl _ \<Rightarrow> False | Inr _ \<Rightarrow> True))))"

text \<open>A document with only those of its signatures that satisfy \<open>P\<close>.\<close>

fun filterSignatures :: "(Signature \<Rightarrow> bool) \<Rightarrow> AnyMetadata \<Rightarrow> AnyMetadata" where
  "filterSignatures P (MRoot d) = MRoot (d\<lparr>Signatures := filter P (Signatures d)\<rparr>)"
| "filterSignatures P (MSnapshot d) = MSnapshot (d\<lparr>Signatures := filter P (Signatures d)\<rparr>)"
| "filterSignatures P (MTimestamp d) = MTimestamp (d\<lparr>Signatures := filter P (Signatures d)\<rparr>)"
| "filterSignatures P (MTargets d) = MTargets (d\<lparr>Signatures := filter P (Signatures d)\<rparr>)"
| "filterSignatures P MOther = MOther"

section \<open>Concrete inputs\<close>

text \<open>
  Stand-ins for the library on concrete inputs. The digests are constant; a signature
  verifies when it is the byte 1 followed by the payload; the payload is one byte.
\<close>

definition testHashers :: Hashers where
  "testHashers = \<lparr>sha256 = (\<lambda>data. [0]), sha512 = (\<lambda>data. [0])\<rparr>"

definition testCrypto :: "(string, string) Crypto" where
  "testCrypto =
     \<lparr>ToPublicKey = (\<lambda>k. Inr (Public k)),
      LoadVerifier = (\<lambda>key hash. Inr key),
      VerifySignature = (\<lambda>verifier sig payload. sig = 1 # payload),
      EncodeCanonical = (\<lambda>signed. Inr [7])\<rparr>"

definition testKey :: Key where
  "testKey = \<lparr>Key.Type = ''ed25519'', Scheme = ''ed25519'', Public = ''abcd''\<rparr>"

text \<open>
  A root whose \<open>root\<close> role lists the key ids \<open>k1\<close> and \<open>k2\<close> with threshold 2 and holds
  both keys; one whose keys map lacks \<open>k2\<close>; and targets documents to be verified, with
  valid signatures for the key ids given.
\<close>

definition rootTwoKeys :: "RootType Metadata" where
  "rootTwoKeys =
     \<lparr>Signed = \<lparr>Type = ROOT, SpecVersion = SPECIFICATION_VERSION, Version = 1, Expires = 100,
                 RootType.Keys = [''k1'' \<mapsto> testKey, ''k2'' \<mapsto> testKey],
                 RootType.Roles = [ROOT \<mapsto> \<lparr>Role.KeyIDs = [''k1'', ''k2''], Role.Threshold = 2\<rparr>],
                 ConsistentSnapshot = True\<rparr>,
      Signatures = []\<rparr>"

definition rootMissingKey :: "RootType Metadata" where
  "rootMissingKey =
     \<lparr>Signed = \<lparr>Type = ROOT, SpecVersion = SPECIFICATION_VERSION, Version = 1, Expires = 100,
                 RootType.Keys = [''k1'' \<mapsto> testKey],
                 RootType.Roles = [ROOT \<mapsto> \<lparr>Role.KeyIDs = [''k1'', ''k2''], Role.Threshold = 2\<rparr>],
                 ConsistentSnapshot = True\<rparr>,
      Signatures = []\<rparr>"

definition sigFor :: "string \<Rightarrow> Signature" where
  "sigFor keyid = \<lparr>KeyID = keyid, Signature = [1, 7]\<rparr>"

definition signedWith :: "Signature list \<Rightarrow> TargetsType Metadata" where
  "signedWith sigs =
     \<lparr>Signed = \<lparr>Type = TARGETS, SpecVersion = SPECIFICATION_VERSION, Version = 1, Expires = 100,
                 TargetsType.Targets = Map.empty, Delegations = None\<rparr>,
      Signatures = sigs\<rparr>"

text \<open>
  An environment in which no local file exists and every download is answered with the
  status 404; the world is the list of the downloads asked for, each with its URL and
  its maximum length. \<open>range\<close> yields the entries of a map in the order of insertion.
\<close>

definition testEnv :: "(string \<times> int) list Env" where
  "testEnv =
     \<lparr>readFile = (\<lambda>w name. Inl (ErrOther ''no such file'')),
      DownloadFile = (\<lambda>w url maxLength. (Inl (ErrDownloadHTTP 404), w @ [(url, maxLength)])),
      writeFileAtomic = (\<lambda>w name data. (None, w)),
      QueryEscape = (\<lambda>s. s),
      Join = (\<lambda>dir name. dir @ ''/'' @ name),
      UpdateRoot = (\<lambda>t data. (Some ErrUnsignedMetadata, t)),
      UpdateTimestamp = (\<lambda>t data. (Some ErrUnsignedMetadata, t)),
      UpdateSnapshot = (\<lambda>t data trusted'. (Some ErrUnsignedMetadata, t)),
      UpdateDelegatedTargets = (\<lambda>t data roleName parentName. (Inl ErrUnsignedMetadata, t)),
      Match = filepath_Match,
      rangeRoles = (\<lambda>roles. roles)\<rparr>"

text \<open>
  An environment in which the repository serves every root version and each served
  root is accepted: \<open>UpdateRoot\<close> installs a root of the next version.
\<close>

definition bumpRoot :: "TrustedMetadata \<Rightarrow> TrustedMetadata" where
  "bumpRoot t =
     t\<lparr>TrustedMetadata.Root :=
         (TrustedMetadata.Root t)
           \<lparr>Signed := (Signed (TrustedMetadata.Root t))
                        \<lparr>Version := Version (Signed (TrustedMetadata.Root t)) + 1\<rparr>\<rparr>\<rparr>"

definition servingEnv :: "(string \<times> int) list Env" where
  "servingEnv =
     testEnv\<lparr>DownloadFile := (\<lambda>w url maxLength. (Inr [], w @ [(url, maxLength)])),
             UpdateRoot := (\<lambda>t data. (None, bumpRoot t))\<rparr>"

definition testConfig :: UpdaterConfig where
  "testConfig =
     \<lparr>MaxRootRotations = 1, MaxDelegations = 1, RootMaxLength = 512000,
      TimestampMaxLength = 16384, SnapshotMaxLength = 2000000, TargetsMaxLength = 5000000,
      PrefixTargetsWithHash = True\<rparr>"

definition metaOfLength :: "int \<Rightarrow> MetaFiles" where
  "metaOfLength n = \<lparr>MetaFiles.Length = n, MetaFiles.Hashes = [], Version = 1\<rparr>"

text \<open>
  A trusted set with a root of version 1, a timestamp that records length 100 for
  \<open>snapshot.json\<close>, and a snapshot that records length 100 for \<open>role1.json\<close> and no length
  for \<open>role2.json\<close>; no targets document is loaded.
\<close>

definition trustedTop :: TrustedMetadata where
  "trustedTop =
     \<lparr>TrustedMetadata.Root = Root 0 [100],
      TrustedMetadata.Timestamp =
        Some ((Timestamp 0 [100])
               \<lparr>Signed := (Signed (Timestamp 0 [100]))
                   \<lparr>TimestampType.Meta := [''snapshot.json'' \<mapsto> metaOfLength 100]\<rparr>\<rparr>),
      TrustedMetadata.Snapshot =
        Some ((Snapshot 0 [100])
               \<lparr>Signed := (Signed (Snapshot 0 [100]))
                   \<lparr>SnapshotType.Meta :=
                      [''targets.json'' \<mapsto> metaOfLength 0, ''role1.json'' \<mapsto> metaOfLength 100,
                       ''role2.json'' \<mapsto> metaOfLength 0]\<rparr>\<rparr>),
      TrustedMetadata.Targets = Map.empty\<rparr>"

definition updaterOf :: "TrustedMetadata \<Rightarrow> (string \<times> int) list Updater" where
  "updaterOf t =
     \<lparr>metadataDir = ''metadata'', metadataBaseUrl = ''https://example.com/metadata/'',
      targetDir = ''targets'', targetBaseUrl = ''https://example.com/targets/'',
      trusted = t, config = testConfig, world = []\<rparr>"

text \<open>
  Delegation trees. In the first, \<open>targets\<close> delegates the path \<open>foo\<close> to \<open>role-A\<close> and
  then to \<open>role-B\<close>, neither terminating; \<open>role-A\<close> lists nothing and \<open>role-B\<close> lists
  \<open>foo\<close>. In the second, \<open>targets\<close> delegates \<open>foo\<close> to \<open>role-A\<close>, which delegates it to
  \<open>role-B\<close>, and no role lists it.
\<close>

definition delegatedRole :: "string \<Rightarrow> string list \<Rightarrow> DelegatedRole" where
  "delegatedRole name paths =
     \<lparr>Name = name, DelegatedRole.KeyIDs = [''k1''], DelegatedRole.Threshold = 1,
      Terminating = False, Paths = paths, PathHashPrefixes = []\<rparr>"

definition targetsDoc ::
  "(string \<rightharpoonup> TargetFiles) \<Rightarrow> DelegatedRole list option \<Rightarrow> TargetsType Metadata" where
  "targetsDoc files roles =
     \<lparr>Signed = \<lparr>Type = TARGETS, SpecVersion = SPECIFICATION_VERSION, Version = 1, Expires = 100,
                 TargetsType.Targets = files,
                 Delegations =
                   map_option (\<lambda>rs. \<lparr>Delegations.Keys = [''k1'' \<mapsto> testKey], Delegations.Roles = rs\<rparr>)
                     roles\<rparr>,
      Signatures = []\<rparr>"

definition fooFile :: TargetFiles where
  "fooFile = \<lparr>TargetFiles.Length = 3, TargetFiles.Hashes = [(''sha256'', [0])], Path = ''foo''\<rparr>"

definition trustedSiblings :: TrustedMetadata where
  "trustedSiblings =
     trustedTop\<lparr>TrustedMetadata.Targets :=
       [''targets'' \<mapsto> targetsDoc Map.empty
                         (Some [delegatedRole ''role-A'' [''foo''], delegatedRole ''role-B'' [''foo'']]),
        ''role-A'' \<mapsto> targetsDoc Map.empty None,
        ''role-B'' \<mapsto> targetsDoc [''foo'' \<mapsto> fooFile] None]\<rparr>"

definition trustedChain :: TrustedMetadata where
  "trustedChain =
     trustedTop\<lparr>TrustedMetadata.Targets :=
       [''targets'' \<mapsto> targetsDoc Map.empty (Some [delegatedRole ''role-A'' [''foo'']]),
        ''role-A'' \<mapsto> targetsDoc Map.empty (Some [delegatedRole ''role-B'' [''foo'']]),
        ''role-B'' \<mapsto> targetsDoc Map.empty None]\<rparr>"

section \<open>Auxiliary notions for the proofs\<close>

text \<open>
  \<open>loadsWithin maxD visited log0 log1\<close>: the record \<open>log1\<close> of loaded roles extends \<open>log0\<close> by
  roles that are pairwise distinct, not yet visited, and no more than the budget left.
\<close>

definition loadsWithin :: "int \<Rightarrow> string list \<Rightarrow> string list \<Rightarrow> string list \<Rightarrow> bool" where
  "loadsWithin maxD visited log0 log1 \<longleftrightarrow>
     (\<exists>new. log1 = log0 @ new \<and> distinct new \<and> set new \<inter> set visited = {} \<and>
            int (length new) \<le> max 0 (maxD + 1 - int (length visited)))"

text \<open>One round of the loop over the key ids of a role, when the key id is usable.\<close>

definition countStep ::
  "('pk, 'vf) Crypto \<Rightarrow> (string \<rightharpoonup> Key) \<Rightarrow> AnyMetadata \<Rightarrow> string \<Rightarrow> string list \<Rightarrow> string list" where
  "countStep C keys d v signing_keys =
     (if keyVerifies C keys d v then List.insert v signing_keys else signing_keys)"

section \<open>Length and hash verification\<close>

lemma verifyLength_helpers_stub: "verifyLength_helpers data n = None"
  by (simp add: verifyLength_helpers_def)

text \<open>
  Claim C8. \<open>verifyLength\<close> of the metadata package returns \<open>ErrLengthOrHashMismatch\<close>
  exactly when the number of bytes of the data differs from the expected length, and
  returns nil exactly when they are equal.
\<close>

theorem verifyLength_iff:
  "(verifyLength data n = Some ErrLengthOrHashMismatch) = (int (length data) \<noteq> n) \<and>
   (verifyLength data n = None) = (int (length data) = n)"
  by (auto simp: verifyLength_def)

text \<open>Claim C8 at three bytes, with the expected lengths 3 and 4.\<close>

theorem verifyLength_iff_witness:
  "verifyLength [1, 2, 3] 3 = None \<and> verifyLength [1, 2, 3] 4 = Some ErrLengthOrHashMismatch"
  using verifyLength_iff [of "[1, 2, 3]" 3] verifyLength_iff [of "[1, 2, 3]" 4] by simp

text \<open>
  Claim C3, as stated, fails: \<open>TargetFiles.VerifyLengthHashes\<close> on a \<open>TargetFiles\<close> value
  with an empty \<open>Hashes\<close> map and the right length returns nil, not an error.
\<close>

theorem TargetFiles_empty_hashes_accepted:
  "TargetFiles_VerifyLengthHashes testHashers
     \<lparr>TargetFiles.Length = 3, TargetFiles.Hashes = [], Path = ''x''\<rparr> [1, 2, 3] = None"
  by (simp add: TargetFiles_VerifyLengthHashes_def verifyLength_def)

text \<open>
  Claim C3, amended. With an empty hashes map neither method checks a hash:
  \<open>MetaFiles.VerifyLengthHashes\<close> is the length check when the recorded length is not zero
  and succeeds otherwise; \<open>TargetFiles.VerifyLengthHashes\<close> is the length check.
\<close>

theorem empty_hashes_no_hash_check:
  "(MetaFiles.Hashes mf = [] \<longrightarrow>
      MetaFiles_VerifyLengthHashes H mf data =
        (if MetaFiles.Length mf \<noteq> 0 then verifyLength data (MetaFiles.Length mf) else None)) \<and>
   (TargetFiles.Hashes tf = [] \<longrightarrow>
      TargetFiles_VerifyLengthHashes H tf data = verifyLength data (TargetFiles.Length tf))"
  by (simp add: MetaFiles_VerifyLengthHashes_def TargetFiles_VerifyLengthHashes_def)

text \<open>
  Claim C3, amended, at a \<open>MetaFiles\<close> value without length and hashes and at the
  \<open>TargetFiles\<close> value that \<open>TargetFile()\<close> returns.
\<close>

theorem empty_hashes_no_hash_check_witness:
  "MetaFiles.Hashes (metaOfLength 0) = [] \<and> TargetFiles.Hashes TargetFile = [] \<and>
   MetaFiles_VerifyLengthHashes testHashers (metaOfLength 0) [1, 2, 3] = None \<and>
   TargetFiles_VerifyLengthHashes testHashers TargetFile [] = None \<and>
   TargetFiles_VerifyLengthHashes testHashers TargetFile [1] = Some ErrLengthOrHashMismatch"
  using empty_hashes_no_hash_check [of "metaOfLength 0" testHashers "[1, 2, 3]" TargetFile]
        empty_hashes_no_hash_check [of "metaOfLength 0" testHashers "[]" TargetFile]
        empty_hashes_no_hash_check [of "metaOfLength 0" testHashers "[1]" TargetFile]
  by (simp add: metaOfLength_def TargetFile_def verifyLength_def)

section \<open>Delegated paths\<close>

lemma IsDelegatedPath_first:
  "PathHashPrefixes role = [] \<Longrightarrow> Paths role = p # ps \<Longrightarrow>
   IsDelegatedPath Match' role targetFilepath = Match' targetFilepath p"
  by (simp add: IsDelegatedPath_def)

lemma IsDelegatedPath_prefixes:
  "PathHashPrefixes role \<noteq> [] \<Longrightarrow> IsDelegatedPath Match' role targetFilepath = (False, None)"
  by (simp add: IsDelegatedPath_def)

text \<open>
  Claim C5 holds of the intended function and fails on the code. For a role with the
  paths \<open>a\<close> and \<open>b\<close> and the target path \<open>b\<close>, \<open>IsDelegatedPath\<close> returns false although
  the second pattern matches; for the pattern \<open>dir1/*\<close> and the target path \<open>dir1/foo\<close> it
  returns false although the pattern matches the path.
\<close>

theorem IsDelegatedPath_first_pattern_only:
  "IsDelegatedPath filepath_Match (delegatedRole ''r'' [''a'', ''b'']) ''b'' = (False, None) \<and>
   filepath_Match ''b'' ''b'' = (True, None) \<and>
   IsDelegatedPath filepath_Match (delegatedRole ''r'' [''dir1/*'']) ''dir1/foo'' = (False, None) \<and>
   filepath_Match ''dir1/*'' ''dir1/foo'' = (True, None)"
  by (simp add: IsDelegatedPath_def filepath_Match_def delegatedRole_def)

section \<open>Threshold verification\<close>

lemma verifyKeyIDs_usable_prefix:
  "list_all (keyUsable C keys d) pre \<Longrightarrow>
   verifyKeyIDs C keys d (pre @ rest) sk =
   verifyKeyIDs C keys d rest (fold (countStep C keys d) pre sk)"
proof (induction pre arbitrary: sk)
  case Nil
  then show ?case by simp
next
  case (Cons v pre)
  from Cons.prems have u: "keyUsable C keys d v" and rest: "list_all (keyUsable C keys d) pre"
    by simp_all
  from u show ?case
    using Cons.IH[OF rest]
    by (auto simp: keyUsable_def keyVerifies_def countStep_def hashOfKey_def
             split: option.splits sum.splits)
qed

lemma fold_countStep:
  "distinct sk \<Longrightarrow>
   distinct (fold (countStep C keys d) vs sk) \<and>
   set (fold (countStep C keys d) vs sk) = set sk \<union> {v \<in> set vs. keyVerifies C keys d v}"
  by (induction vs arbitrary: sk) (auto simp: countStep_def)

lemma verifyKeyIDs_usable:
  assumes "list_all (keyUsable C keys d) ids"
  shows "\<exists>sk. verifyKeyIDs C keys d ids [] = Returns (Inr sk) \<and>
              length sk = card {v \<in> set ids. keyVerifies C keys d v}"
proof -
  let ?sk = "fold (countStep C keys d) ids []"
  have "verifyKeyIDs C keys d ids [] = Returns (Inr ?sk)"
    using verifyKeyIDs_usable_prefix[OF assms, of "[]" "[]"] by simp
  moreover have "distinct ?sk" "set ?sk = {v \<in> set ids. keyVerifies C keys d v}"
    using fold_countStep[of "[]" C keys d ids] by simp_all
  then have "length ?sk = card {v \<in> set ids. keyVerifies C keys d v}"
    using distinct_card by metis
  ultimately show ?thesis by blast
qed

lemma verifyKeyIDs_missing_key:
  assumes "list_all (keyUsable C keys d) pre" "keys v = None"
  shows "verifyKeyIDs C keys d (pre @ v # post) sk = Panics"
  using verifyKeyIDs_usable_prefix[OF assms(1), of "v # post" sk] assms(2) by simp

lemma findSignature_filter_from:
  "(\<And>s. KeyID s = v \<Longrightarrow> P s) \<Longrightarrow>
   foldl (\<lambda>sign s. if KeyID s = v then s else sign) a (filter P sigs) =
   foldl (\<lambda>sign s. if KeyID s = v then s else sign) a sigs"
  by (induction sigs arbitrary: a) auto

lemma findSignature_filter:
  "(\<And>s. KeyID s = v \<Longrightarrow> P s) \<Longrightarrow> findSignature (filter P sigs) v = findSignature sigs v"
  unfolding findSignature_def by (rule findSignature_filter_from)

lemma signAndPayload_filterSignatures:
  "(\<And>s. KeyID s = v \<Longrightarrow> P s) \<Longrightarrow>
   signAndPayload C (filterSignatures P d) v = signAndPayload C d v"
  by (cases d) (simp_all add: findSignature_filter split: sum.splits)

lemma verifyKeyIDs_filterSignatures:
  "(\<And>s. KeyID s \<in> set vs \<Longrightarrow> P s) \<Longrightarrow>
   verifyKeyIDs C keys (filterSignatures P d) vs sk = verifyKeyIDs C keys d vs sk"
proof (induction vs arbitrary: sk)
  case Nil
  then show ?case by simp
next
  case (Cons v vs)
  have here: "signAndPayload C (filterSignatures P d) v = signAndPayload C d v"
    by (rule signAndPayload_filterSignatures) (simp add: Cons.prems)
  have rest: "verifyKeyIDs C keys (filterSignatures P d) vs sk' = verifyKeyIDs C keys d vs sk'"
    for sk'
    by (rule Cons.IH) (simp add: Cons.prems)
  show ?case
    by (simp add: here rest split: option.splits sum.splits prod.splits)
qed

lemma rootTwoKeys_role:
  "roleOfDelegator (MRoot rootTwoKeys) ROOT =
     Returns (Inr (RootType.Keys (Signed rootTwoKeys), [''k1'', ''k2''], 2))"
  by (simp add: rootTwoKeys_def ROOT_def)

lemma rootMissingKey_role:
  "roleOfDelegator (MRoot rootMissingKey) ROOT =
     Returns (Inr (RootType.Keys (Signed rootMissingKey), [''k1''] @ ''k2'' # [], 2))"
  by (simp add: rootMissingKey_def ROOT_def)

text \<open>
  Claim C2, as stated, fails. The root that \<open>Root()\<close> returns has a \<open>root\<close> role with
  threshold 1 and no key ids: no key id verifies, the count 0 is below the threshold,
  and \<open>VerifyDelegate\<close> returns \<open>ErrValue\<close>. A root whose \<open>root\<close> role lists \<open>k1\<close> and \<open>k2\<close>
  with threshold 2 and whose keys lack \<open>k2\<close>, given a document signed for \<open>k1\<close>: one key
  id verifies, the count is below the threshold, and \<open>VerifyDelegate\<close> panics. Neither
  returns \<open>ErrUnsignedMetadata\<close>.
\<close>

theorem VerifyDelegate_no_key_ids:
  "map_option Role.KeyIDs (RootType.Roles (Signed (Root 0 [])) ROOT) = Some [] \<and>
   map_option Role.Threshold (RootType.Roles (Signed (Root 0 [])) ROOT) = Some 1 \<and>
   VerifyDelegate testCrypto (MRoot (Root 0 [])) ROOT (MRoot (Root 0 [])) = Returns (Some ErrValue) \<and>
   int (card {v \<in> set [''k1'', ''k2''].
          keyVerifies testCrypto (RootType.Keys (Signed rootMissingKey))
            (MTargets (signedWith [sigFor ''k1''])) v}) = 1 \<and>
   map_option Role.Threshold (RootType.Roles (Signed rootMissingKey) ROOT) = Some 2 \<and>
   VerifyDelegate testCrypto (MRoot rootMissingKey) ROOT (MTargets (signedWith [sigFor ''k1'']))
     = Panics"
  by code_simp

text \<open>
  Claim C2, amended. Let the delegator resolve the role to a list of key ids, each of
  which is usable (its key is in the delegator's keys, the key and the verifier load,
  the payload encodes), and let the verifier return an answer for each. When the list
  is empty, \<open>VerifyDelegate\<close> returns \<open>ErrValue\<close>, whatever the threshold. Otherwise it
  returns \<open>ErrUnsignedMetadata\<close> if the number of distinct key ids of the role whose
  signature verifies is below the threshold, and nil if it is not. The signatures for
  key ids that the role does not list contribute nothing: without them the result is the
  same.
\<close>

theorem VerifyDelegate_threshold:
  assumes "roleOfDelegator meta delegated_role = Returns (Inr (keys, roleKeyIDs, roleThreshold))"
    and "list_all (keyUsable C keys d) roleKeyIDs"
  shows "VerifyDelegate C meta delegated_role d =
           Returns (if roleKeyIDs = [] then Some ErrValue
                    else if int (card {v \<in> set roleKeyIDs. keyVerifies C keys d v}) < roleThreshold
                    then Some ErrUnsignedMetadata else None) \<and>
         VerifyDelegate C meta delegated_role
           (filterSignatures (\<lambda>s. KeyID s \<in> set roleKeyIDs) d) =
         VerifyDelegate C meta delegated_role d"
proof -
  from verifyKeyIDs_usable[OF assms(2)] obtain sk where
    sk: "verifyKeyIDs C keys d roleKeyIDs [] = Returns (Inr sk)"
        "length sk = card {v \<in> set roleKeyIDs. keyVerifies C keys d v}"
    by blast
  have first: "VerifyDelegate C meta delegated_role d =
           Returns (if roleKeyIDs = [] then Some ErrValue
                    else if int (card {v \<in> set roleKeyIDs. keyVerifies C keys d v}) < roleThreshold
                    then Some ErrUnsignedMetadata else None)"
  proof (cases "roleKeyIDs = []")
    case True
    with assms(1) show ?thesis by (simp add: VerifyDelegate_def)
  next
    case False
    with assms(1) sk show ?thesis by (simp add: VerifyDelegate_def)
  qed
  have "verifyKeyIDs C keys (filterSignatures (\<lambda>s. KeyID s \<in> set roleKeyIDs) d) roleKeyIDs [] =
        verifyKeyIDs C keys d roleKeyIDs []"
    by (rule verifyKeyIDs_filterSignatures) simp
  then have second: "VerifyDelegate C meta delegated_role
           (filterSignatures (\<lambda>s. KeyID s \<in> set roleKeyIDs) d) =
         VerifyDelegate C meta delegated_role d"
    using assms(1) by (simp add: VerifyDelegate_def)
  from first second show ?thesis by blast
qed

text \<open>
  Claim C2, amended, at a root whose \<open>root\<close> role lists \<open>k1\<close> and \<open>k2\<close> with threshold 2.
  A document signed for the unlisted key id \<open>k9\<close> and for \<open>k1\<close> is refused with
  \<open>ErrUnsignedMetadata\<close>, as it is without the signature for \<open>k9\<close>; a document signed for
  \<open>k1\<close> and \<open>k2\<close> is accepted. At the root that \<open>Root()\<close> returns, whose \<open>root\<close> role has
  threshold 1 and no key ids, and at a targets delegator that has no delegated role of
  the name, where the threshold read is 0, the answer is \<open>ErrValue\<close>.
\<close>

theorem VerifyDelegate_threshold_witness:
  "roleOfDelegator (MRoot rootTwoKeys) ROOT =
     Returns (Inr (RootType.Keys (Signed rootTwoKeys), [''k1'', ''k2''], 2)) \<and>
   list_all (keyUsable testCrypto (RootType.Keys (Signed rootTwoKeys))
               (MTargets (signedWith [sigFor ''k9'', sigFor ''k1''])))
     [''k1'', ''k2''] \<and>
   VerifyDelegate testCrypto (MRoot rootTwoKeys) ROOT
     (MTargets (signedWith [sigFor ''k9'', sigFor ''k1''])) = Returns (Some ErrUnsignedMetadata) \<and>
   VerifyDelegate testCrypto (MRoot rootTwoKeys) ROOT
     (MTargets (signedWith [sigFor ''k1''])) = Returns (Some ErrUnsignedMetadata) \<and>
   VerifyDelegate testCrypto (MRoot rootTwoKeys) ROOT
     (MTargets (signedWith [sigFor ''k1'', sigFor ''k2''])) = Returns None \<and>
   roleOfDelegator (MRoot (Root 0 [])) ROOT =
     Returns (Inr (RootType.Keys (Signed (Root 0 [])), [], 1)) \<and>
   VerifyDelegate testCrypto (MRoot (Root 0 [])) ROOT (MRoot (Root 0 [])) =
     Returns (Some ErrValue) \<and>
   roleOfDelegator (MTargets (targetsDoc Map.empty (Some []))) ''role-A'' =
     Returns (Inr ([''k1'' \<mapsto> testKey], [], 0)) \<and>
   VerifyDelegate testCrypto (MTargets (targetsDoc Map.empty (Some []))) ''role-A''
     (MTargets (signedWith [sigFor ''k1''])) = Returns (Some ErrValue)"
proof -
  let ?keys = "RootType.Keys (Signed rootTwoKeys)"
  let ?d = "MTargets (signedWith [sigFor ''k9'', sigFor ''k1''])"
  let ?d2 = "MTargets (signedWith [sigFor ''k1'', sigFor ''k2''])"
  have u1: "list_all (keyUsable testCrypto ?keys ?d) [''k1'', ''k2'']" by code_simp
  have u2: "list_all (keyUsable testCrypto ?keys ?d2) [''k1'', ''k2'']" by code_simp
  have c1: "int (card {v \<in> set [''k1'', ''k2'']. keyVerifies testCrypto ?keys ?d v}) = 1"
    by code_simp
  have c2: "int (card {v \<in> set [''k1'', ''k2'']. keyVerifies testCrypto ?keys ?d2 v}) = 2"
    by code_simp
  have f: "filterSignatures (\<lambda>s. KeyID s \<in> set [''k1'', ''k2'']) ?d =
           MTargets (signedWith [sigFor ''k1''])"
    by (simp add: signedWith_def sigFor_def)
  from VerifyDelegate_threshold[OF rootTwoKeys_role u1] c1 f
  have r1: "VerifyDelegate testCrypto (MRoot rootTwoKeys) ROOT ?d = Returns (Some ErrUnsignedMetadata)"
    and r2: "VerifyDelegate testCrypto (MRoot rootTwoKeys) ROOT
               (MTargets (signedWith [sigFor ''k1''])) = Returns (Some ErrUnsignedMetadata)"
    by simp_all
  from VerifyDelegate_threshold[OF rootTwoKeys_role u2] c2
  have r3: "VerifyDelegate testCrypto (MRoot rootTwoKeys) ROOT ?d2 = Returns None"
    by simp
  have e1: "roleOfDelegator (MRoot (Root 0 [])) ROOT =
              Returns (Inr (RootType.Keys (Signed (Root 0 [])), [], 1))"
    by (simp add: Root_def Let_def ROOT_def SNAPSHOT_def TARGETS_def TIMESTAMP_def)
  have e2: "roleOfDelegator (MTargets (targetsDoc Map.empty (Some []))) ''role-A'' =
              Returns (Inr ([''k1'' \<mapsto> testKey], [], 0))"
    by (simp add: targetsDoc_def)
  have n: "list_all (keyUsable testCrypto ks dd) []" for ks dd by simp
  from VerifyDelegate_threshold[OF e1 n]
  have r4: "VerifyDelegate testCrypto (MRoot (Root 0 [])) ROOT (MRoot (Root 0 [])) =
              Returns (Some ErrValue)"
    by simp
  from VerifyDelegate_threshold[OF e2 n]
  have r5: "VerifyDelegate testCrypto (MTargets (targetsDoc Map.empty (Some []))) ''role-A''
              (MTargets (signedWith [sigFor ''k1''])) = Returns (Some ErrValue)"
    by simp
  from rootTwoKeys_role u1 r1 r2 r3 e1 r4 e2 r5 show ?thesis by simp
qed

text \<open>
  Claim C10, as stated, fails: a listed key id that is missing from the delegator's keys
  does not make \<open>VerifyDelegate\<close> panic when an earlier key id ends the call. The \<open>root\<close>
  role lists \<open>k1\<close> and \<open>k2\<close> and the keys lack \<open>k2\<close>: given a value that is not a metadata
  document, the call returns \<open>ErrType\<close> at \<open>k1\<close>; given a document whose payload does not
  encode, it returns the encoder's error at \<open>k1\<close>.
\<close>

theorem VerifyDelegate_missing_key_not_reached:
  "map_option Role.KeyIDs (RootType.Roles (Signed rootMissingKey) ROOT) = Some [''k1'', ''k2''] \<and>
   RootType.Keys (Signed rootMissingKey) ''k2'' = None \<and>
   VerifyDelegate testCrypto (MRoot rootMissingKey) ROOT MOther = Returns (Some ErrType) \<and>
   VerifyDelegate (testCrypto\<lparr>EncodeCanonical := (\<lambda>signed. Inl (ErrOther ''encoding failed''))\<rparr>)
     (MRoot rootMissingKey) ROOT (MTargets (signedWith [sigFor ''k1'']))
     = Returns (Some (ErrOther ''encoding failed''))"
  by code_simp

text \<open>
  Claim C10, amended. \<open>VerifyDelegate\<close> panics on a targets delegator whose \<open>Delegations\<close>
  field is nil; and it panics when the role it resolves lists a key id that is missing
  from the delegator's keys and the key ids before it are usable, so that the loop
  reaches the missing one.
\<close>

theorem VerifyDelegate_panics:
  "(Delegations (Signed t) = None \<longrightarrow> VerifyDelegate C (MTargets t) delegated_role d = Panics) \<and>
   (roleOfDelegator meta delegated_role = Returns (Inr (keys, pre @ v # post, roleThreshold)) \<and>
    list_all (keyUsable C keys d) pre \<and> keys v = None \<longrightarrow>
      VerifyDelegate C meta delegated_role d = Panics)"
  by (auto simp: VerifyDelegate_def verifyKeyIDs_missing_key)

text \<open>
  Claim C10, amended, at a targets document without delegations as the delegator, and at
  a root whose \<open>root\<close> role lists \<open>k1\<close> and \<open>k2\<close> while its keys hold \<open>k1\<close> only.
\<close>

theorem VerifyDelegate_panics_witness:
  "Delegations (Signed (signedWith [])) = None \<and>
   RootType.Keys (Signed rootMissingKey) ''k2'' = None \<and>
   VerifyDelegate testCrypto (MTargets (signedWith [])) ROOT (MTargets (signedWith [sigFor ''k1'']))
     = Panics \<and>
   VerifyDelegate testCrypto (MRoot rootMissingKey) ROOT (MTargets (signedWith [sigFor ''k1'']))
     = Panics"
proof -
  have n: "Delegations (Signed (signedWith [])) = None"
    by (simp add: signedWith_def)
  have k: "RootType.Keys (Signed rootMissingKey) ''k2'' = None"
    by (simp add: rootMissingKey_def)
  have u: "list_all (keyUsable testCrypto (RootType.Keys (Signed rootMissingKey))
             (MTargets (signedWith [sigFor ''k1'']))) [''k1'']"
    by code_simp
  from VerifyDelegate_panics[where t = "signedWith []" and C = testCrypto
         and delegated_role = ROOT and d = "MTargets (signedWith [sigFor ''k1''])"
         and meta = "MRoot rootMissingKey" and keys = "RootType.Keys (Signed rootMissingKey)"
         and pre = "[''k1'']" and v = "''k2''" and post = "[]" and roleThreshold = 2]
       n k u rootMissingKey_role
  show ?thesis by simp
qed

section \<open>The updater\<close>

text \<open>
  Claim C7 holds of the intended function and fails on the code. The snapshot records
  length 100 for \<open>role1.json\<close> and \<open>TargetsMaxLength\<close> is 5000000: \<open>loadTargets\<close> asks for
  at most 5000000 bytes. It records no length for \<open>role2.json\<close>: \<open>loadTargets\<close> asks for
  at most 0 bytes. \<open>loadSnapshot\<close>, where the timestamp records length 100 for
  \<open>snapshot.json\<close>, asks for at most 100 bytes.
\<close>

theorem loadTargets_length_inverted:
  "TargetsMaxLength (config (updaterOf trustedTop)) = 5000000 \<and>
   world (snd (loadTargets testEnv (updaterOf trustedTop) ''role1'' ''targets'')) =
     [(''https://example.com/metadata/1.role1.json'', 5000000)] \<and>
   world (snd (loadTargets testEnv (updaterOf trustedTop) ''role2'' ''targets'')) =
     [(''https://example.com/metadata/1.role2.json'', 0)] \<and>
   world (snd (loadSnapshot testEnv (updaterOf trustedTop))) =
     [(''https://example.com/metadata/1.snapshot.json'', 100)]"
  by code_simp

lemma loadRoot_loop_stops_on_404_403:
  assumes "nextVersion \<le> upperBound"
    and "downloadMetadata E update ROOT (RootMaxLength (config update)) (FormatInt nextVersion)
           = (Inl (ErrDownloadHTTP StatusCode), u1)"
    and "StatusCode = 404 \<or> StatusCode = 403"
  shows "loadRoot_loop E update nextVersion upperBound = (None, u1)"
  using assms by (subst loadRoot_loop.simps) auto

lemma loadRoot_loop_aborts_on_other_error:
  assumes "nextVersion \<le> upperBound"
    and "downloadMetadata E update ROOT (RootMaxLength (config update)) (FormatInt nextVersion)
           = (Inl err, u1)"
    and "err \<noteq> ErrDownloadHTTP 404" and "err \<noteq> ErrDownloadHTTP 403"
  shows "loadRoot_loop E update nextVersion upperBound = (Some err, u1)"
  using assms by (subst loadRoot_loop.simps) (auto split: error.splits)

text \<open>
  Claim C4 holds of the intended function and fails on the code. With the trusted root
  at version 1, \<open>MaxRootRotations = 1\<close> and a repository that serves every root version,
  \<open>loadRoot\<close> asks for the versions 2 and 3 and ends with the root of version 3: one
  request and one rotation more than \<open>MaxRootRotations\<close>.
\<close>

theorem loadRoot_one_request_too_many:
  "MaxRootRotations (config (updaterOf trustedTop)) = 1 \<and>
   Version (Signed (TrustedMetadata.Root (trusted (updaterOf trustedTop)))) = 1 \<and>
   world (snd (loadRoot servingEnv (updaterOf trustedTop))) =
     [(''https://example.com/metadata/2.root.json'', 512000),
      (''https://example.com/metadata/3.root.json'', 512000)] \<and>
   Version (Signed (TrustedMetadata.Root (trusted (snd (loadRoot servingEnv (updaterOf trustedTop))))))
     = 3"
  by code_simp

section \<open>The delegation walk\<close>

lemma pushChildRoles_at_most_one:
  "length (pushChildRoles Match' range' targets role targetFilePath delegationsToVisit)
     \<le> max 1 (length delegationsToVisit)"
  by (auto simp: pushChildRoles_def Let_def split: option.splits list.splits)

text \<open>
  Claim C1 holds of the intended function and fails on the code. \<open>targets\<close> delegates
  \<open>foo\<close> to \<open>role-A\<close> and to \<open>role-B\<close>, neither terminating, and both match: only
  \<open>role-A\<close> is pushed, and a role waiting on the stack is dropped although no child is
  terminating. \<open>role-B\<close> lists \<open>foo\<close>, and the walk returns that the target is not
  found, with \<open>MaxDelegations\<close> at 1 and at 32.
\<close>

theorem walk_drops_sibling:
  "GetRolesForTarget filepath_Match
     \<lparr>Delegations.Keys = [''k1'' \<mapsto> testKey],
      Delegations.Roles = [delegatedRole ''role-A'' [''foo''], delegatedRole ''role-B'' [''foo'']]\<rparr>
     ''foo'' = [(''role-A'', False), (''role-B'', False)] \<and>
   pushChildRoles filepath_Match (\<lambda>roles. roles)
     (targetsDoc Map.empty
        (Some [delegatedRole ''role-A'' [''foo''], delegatedRole ''role-B'' [''foo'']]))
     ''targets'' ''foo'' [\<lparr>Role = ''role-C'', Parent = ''targets''\<rparr>]
     = [\<lparr>Role = ''role-A'', Parent = ''targets''\<rparr>] \<and>
   map_option (\<lambda>t. TargetsType.Targets (Signed t) ''foo'')
     (TrustedMetadata.Targets trustedSiblings ''role-B'') = Some (Some fooFile) \<and>
   fst (preOrderDepthFirstWalk testEnv (updaterOf trustedSiblings) ''foo'') =
     Inl (ErrOther ''target foo not found'') \<and>
   fst (preOrderDepthFirstWalk testEnv
          ((updaterOf trustedSiblings)\<lparr>config := testConfig\<lparr>MaxDelegations := 32\<rparr>\<rparr>) ''foo'') =
     Inl (ErrOther ''target foo not found'')"
  by code_simp

lemma loadsWithin_refl: "loadsWithin maxD visited log0 log0"
  by (simp add: loadsWithin_def)

lemma loadsWithin_one:
  assumes "int (length visited) \<le> maxD" "r \<notin> set visited"
  shows "loadsWithin maxD visited log0 (log0 @ [r])"
  using assms by (simp add: loadsWithin_def)

lemma loadsWithin_step:
  assumes "int (length visited) \<le> maxD" "r \<notin> set visited"
    and "loadsWithin maxD (List.insert r visited) (log0 @ [r]) log1"
  shows "loadsWithin maxD visited log0 log1"
proof -
  from assms(3) obtain new where n: "log1 = (log0 @ [r]) @ new" "distinct new"
    "set new \<inter> set (List.insert r visited) = {}"
    "int (length new) \<le> max 0 (maxD + 1 - int (length (List.insert r visited)))"
    by (auto simp: loadsWithin_def)
  have len: "length (List.insert r visited) = Suc (length visited)"
    using assms(2) by simp
  have "log1 = log0 @ (r # new)" using n(1) by simp
  moreover have "distinct (r # new)" using n(2,3) by auto
  moreover have "set (r # new) \<inter> set visited = {}" using n(3) assms(2) by auto
  moreover have "int (length (r # new)) \<le> max 0 (maxD + 1 - int (length visited))"
    using n(4) len assms(1) by simp
  ultimately show ?thesis unfolding loadsWithin_def by blast
qed

lemma walk_loads:
  assumes "L = logged load"
  shows "loadsWithin maxD visited (snd sl)
           (snd (snd (preOrderDepthFirstWalk_loop L M rng maxD t stack visited sl)))"
  using assms
proof (induction L M rng maxD t stack visited sl rule: preOrderDepthFirstWalk_loop.induct)
  case (1 L M rng maxD t stack visited sl)
  show ?case
  proof (cases "int (length visited) \<le> maxD \<and> length stack > 0")
    case False
    then show ?thesis
      by (subst preOrderDepthFirstWalk_loop.simps) (auto simp: loadsWithin_refl)
  next
    case guard: True
    show ?thesis
    proof (cases "Role (last stack) \<in> set visited")
      case True
      with guard 1(1)[OF guard True 1(3)] show ?thesis
        by (subst preOrderDepthFirstWalk_loop.simps) simp
    next
      case fresh: False
      obtain res s1 where ld: "load (fst sl) (Role (last stack)) (Parent (last stack)) = (res, s1)"
        by (cases "load (fst sl) (Role (last stack)) (Parent (last stack))")
      have L: "L sl (Role (last stack)) (Parent (last stack)) =
                 (res, (s1, snd sl @ [Role (last stack)]))"
        using ld 1(3) by (simp add: logged_def)
      show ?thesis
      proof (cases res)
        case (Inl err)
        with guard fresh L show ?thesis
          by (subst preOrderDepthFirstWalk_loop.simps) (simp add: loadsWithin_one)
      next
        case (Inr targets)
        show ?thesis
        proof (cases "TargetsType.Targets (Signed targets) t")
          case (Some target)
          with guard fresh L Inr show ?thesis
            by (subst preOrderDepthFirstWalk_loop.simps) (simp add: loadsWithin_one)
        next
          case None
          have ih: "loadsWithin maxD (List.insert (Role (last stack)) visited)
             (snd sl @ [Role (last stack)])
             (snd (snd (preOrderDepthFirstWalk_loop L M rng maxD t
                (pushChildRoles M rng targets (Role (last stack)) t (butlast stack))
                (List.insert (Role (last stack)) visited) (s1, snd sl @ [Role (last stack)]))))"
            using 1(2)[OF guard fresh _ _ None 1(3), of "Inr targets"
                         "(s1, snd sl @ [Role (last stack)])"] L Inr
            by simp
          have "loadsWithin maxD visited (snd sl)
             (snd (snd (preOrderDepthFirstWalk_loop L M rng maxD t
                (pushChildRoles M rng targets (Role (last stack)) t (butlast stack))
                (List.insert (Role (last stack)) visited) (s1, snd sl @ [Role (last stack)]))))"
            using loadsWithin_step[OF _ fresh ih] guard by simp
          with guard fresh L Inr None show ?thesis
            by (subst preOrderDepthFirstWalk_loop.simps) simp
        qed
      qed
    qed
  qed
qed

lemma drop_log_fst: "(\<lambda>(r, s', log'). (r, s')) x = y \<Longrightarrow> fst x = fst y"
  by (cases x) auto

lemma walk_logged_same:
  "(\<lambda>(r, s', log'). (r, s'))
     (preOrderDepthFirstWalk_loop (logged load) M rng maxD t stack visited (s, log))
   = preOrderDepthFirstWalk_loop load M rng maxD t stack visited s"
proof (induction load M rng maxD t stack visited s arbitrary: log
       rule: preOrderDepthFirstWalk_loop.induct)
  case (1 load M rng maxD t stack visited s)
  show ?case
  proof (cases "int (length visited) \<le> maxD \<and> length stack > 0")
    case False
    then show ?thesis
      by (subst preOrderDepthFirstWalk_loop.simps, subst (2) preOrderDepthFirstWalk_loop.simps)
         auto
  next
    case guard: True
    show ?thesis
    proof (cases "Role (last stack) \<in> set visited")
      case True
      with guard 1(1)[OF guard True, of log] show ?thesis
        by (subst preOrderDepthFirstWalk_loop.simps, subst (2) preOrderDepthFirstWalk_loop.simps)
           simp
    next
      case fresh: False
      obtain res s1 where ld: "load s (Role (last stack)) (Parent (last stack)) = (res, s1)"
        by (cases "load s (Role (last stack)) (Parent (last stack))")
      have L: "logged load (s, log) (Role (last stack)) (Parent (last stack)) =
                 (res, (s1, log @ [Role (last stack)]))"
        using ld by (simp add: logged_def)
      show ?thesis
      proof (cases res)
        case (Inl err)
        with guard fresh L ld show ?thesis
          by (subst preOrderDepthFirstWalk_loop.simps, subst (2) preOrderDepthFirstWalk_loop.simps)
             simp
      next
        case (Inr targets)
        show ?thesis
        proof (cases "TargetsType.Targets (Signed targets) t")
          case (Some target)
          with guard fresh L ld Inr show ?thesis
            by (subst preOrderDepthFirstWalk_loop.simps,
                subst (2) preOrderDepthFirstWalk_loop.simps) simp
        next
          case None
          from 1(2)[OF guard fresh _ _ None, of "Inr targets" s1 "log @ [Role (last stack)]"] ld Inr
          have ih: "(\<lambda>(r, s', log'). (r, s'))
               (preOrderDepthFirstWalk_loop (logged load) M rng maxD t
                  (pushChildRoles M rng targets (Role (last stack)) t (butlast stack))
                  (List.insert (Role (last stack)) visited) (s1, log @ [Role (last stack)]))
              = preOrderDepthFirstWalk_loop load M rng maxD t
                  (pushChildRoles M rng targets (Role (last stack)) t (butlast stack))
                  (List.insert (Role (last stack)) visited) s1"
            by simp
          with guard fresh L ld Inr None show ?thesis
            by (subst preOrderDepthFirstWalk_loop.simps,
                subst (2) preOrderDepthFirstWalk_loop.simps) simp
        qed
      qed
    qed
  qed
qed

text \<open>
  Claim C6, as stated, fails: with \<open>MaxDelegations = 1\<close> and \<open>targets\<close> delegating the
  path to \<open>role-A\<close>, the walk loads the two roles \<open>targets\<close> and \<open>role-A\<close>.
\<close>

theorem walk_loads_more_than_MaxDelegations:
  "MaxDelegations (config (updaterOf trustedChain)) = 1 \<and>
   snd (snd (preOrderDepthFirstWalk_loop (logged (loadTargets testEnv)) (Match testEnv)
       (rangeRoles testEnv) (MaxDelegations (config (updaterOf trustedChain))) ''foo''
       [\<lparr>Role = TARGETS, Parent = ROOT\<rparr>] [] (updaterOf trustedChain, []))) =
     [''targets'', ''role-A'']"
  by code_simp

text \<open>
  Claim C6, amended. The walk is a total function: it terminates on every delegation
  graph and target path. Run with a loader that records the roles it is asked for, it
  returns what \<open>preOrderDepthFirstWalk\<close> returns, no role is loaded twice, and at most
  \<open>MaxDelegations + 1\<close> roles are loaded (none when \<open>MaxDelegations\<close> is negative).
\<close>

theorem walk_loads_bounded:
  "fst (preOrderDepthFirstWalk_loop (logged (loadTargets E)) (Match E) (rangeRoles E)
          (MaxDelegations (config update)) targetFilePath [\<lparr>Role = TARGETS, Parent = ROOT\<rparr>] []
          (update, []))
     = fst (preOrderDepthFirstWalk E update targetFilePath) \<and>
   distinct (snd (snd (preOrderDepthFirstWalk_loop (logged (loadTargets E)) (Match E) (rangeRoles E)
          (MaxDelegations (config update)) targetFilePath [\<lparr>Role = TARGETS, Parent = ROOT\<rparr>] []
          (update, [])))) \<and>
   int (length (snd (snd (preOrderDepthFirstWalk_loop (logged (loadTargets E)) (Match E)
          (rangeRoles E) (MaxDelegations (config update)) targetFilePath
          [\<lparr>Role = TARGETS, Parent = ROOT\<rparr>] [] (update, [])))))
     \<le> max 0 (MaxDelegations (config update) + 1)"
proof -
  let ?run = "preOrderDepthFirstWalk_loop (logged (loadTargets E)) (Match E) (rangeRoles E)
          (MaxDelegations (config update)) targetFilePath [\<lparr>Role = TARGETS, Parent = ROOT\<rparr>] []
          (update, [])"
  have "loadsWithin (MaxDelegations (config update)) [] (snd (update, [])) (snd (snd ?run))"
    by (rule walk_loads) simp
  then have b: "distinct (snd (snd ?run))"
     "int (length (snd (snd ?run))) \<le> max 0 (MaxDelegations (config update) + 1)"
    by (auto simp: loadsWithin_def)
  have "(\<lambda>(r, s', log'). (r, s')) ?run = preOrderDepthFirstWalk E update targetFilePath"
    unfolding preOrderDepthFirstWalk_def by (rule walk_logged_same)
  then have "fst ?run = fst (preOrderDepthFirstWalk E update targetFilePath)"
    by (rule drop_log_fst)
  with b show ?thesis by simp
qed

end
